theory Spec2Isabelle
  imports Main
begin

unbundle bit_operations_syntax

section \<open>Text helpers\<close>

text \<open>
  A Python \<open>str\<close> is modelled as a \<open>string\<close>, one \<open>char\<close> per code point, so the
  model covers texts whose code points are below 256. In that range the decimal digits
  that the regular expression class \<open>\d\<close> accepts are exactly \<open>0\<close> to \<open>9\<close>, and the
  characters \<open>str.strip()\<close> removes are the twelve listed in \<open>isspace\<close>.
\<close>

definition isdigit :: "char \<Rightarrow> bool" where
  "isdigit c = (c \<in> set ''0123456789'')"

definition isspace :: "char \<Rightarrow> bool" where
  "isspace c = (c \<in> set [CHR 0x09, CHR 0x0A, CHR 0x0B, CHR 0x0C, CHR 0x0D,
                           CHR 0x1C, CHR 0x1D, CHR 0x1E, CHR 0x1F, CHR 0x20,
                           CHR 0x85, CHR 0xA0])"

text \<open>\<open>str.strip()\<close>: drop the white space at both ends.\<close>

definition strip :: "string \<Rightarrow> string" where
  "strip s = rev (dropWhile isspace (rev (dropWhile isspace s)))"

text \<open>\<open>str.split(sep)\<close> for a one-character separator: never returns the empty list.\<close>

fun split :: "char \<Rightarrow> string \<Rightarrow> string list" where
  "split sep [] = [[]]"
| "split sep (c # cs) =
     (if c = sep then [] # split sep cs
      else (case split sep cs of
              [] \<Rightarrow> [[c]]
            | p # ps \<Rightarrow> (c # p) # ps))"

text \<open>\<open>int(s, 10)\<close> on a string of decimal digits, and \<open>str(n)\<close> for \<open>n \<ge> 0\<close>.\<close>

definition digit_val :: "char \<Rightarrow> int" where
  "digit_val c = of_char c - 48"

definition int_of_digits :: "string \<Rightarrow> int" where
  "int_of_digits s = foldl (\<lambda>acc c. 10 * acc + digit_val c) 0 s"

definition digit_char :: "nat \<Rightarrow> char" where
  "digit_char n = char_of (48 + n)"

fun str_nat :: "nat \<Rightarrow> string" where
  "str_nat n = (if n < 10 then [digit_char n] else str_nat (n div 10) @ [digit_char (n mod 10)])"

declare str_nat.simps [simp del]

definition str_int :: "int \<Rightarrow> string" where
  "str_int i = (if i < 0 then CHR ''-'' # str_nat (nat (- i)) else str_nat (nat i))"

section \<open>The regular expression of \<open>load_network_from_file\<close>\<close>

text \<open>
  \<open>re.search(r"\d+\.\d+\.\d+\.\d+/\d+", line)\<close> tries every start position from the
  left and returns the first match. At one position every \<open>\d+\<close> is greedy: it
  takes the whole run of digits, and giving a digit back never helps, since the
  character after a shorter run is a digit and not the separator that follows in the
  pattern.
\<close>

text \<open>\<open>\d+\<close>: the longest non-empty run of digits, and the rest.\<close>

definition digits1 :: "string \<Rightarrow> (string \<times> string) option" where
  "digits1 s =
     (let d = takeWhile isdigit s
      in if d = [] then None else Some (d, dropWhile isdigit s))"

text \<open>A literal character of the pattern.\<close>

fun lit :: "char \<Rightarrow> string \<Rightarrow> string option" where
  "lit c [] = None"
| "lit c (x # xs) = (if x = c then Some xs else None)"

text \<open>The whole pattern anchored at the start of \<open>s\<close>: the matched text, if any.\<close>

definition match_here :: "string \<Rightarrow> string option" where
  "match_here s =
     (case digits1 s of None \<Rightarrow> None | Some (a, r1) \<Rightarrow>
      case lit CHR ''.'' r1 of None \<Rightarrow> None | Some r2 \<Rightarrow>
      case digits1 r2 of None \<Rightarrow> None | Some (b, r3) \<Rightarrow>
      case lit CHR ''.'' r3 of None \<Rightarrow> None | Some r4 \<Rightarrow>
      case digits1 r4 of None \<Rightarrow> None | Some (c, r5) \<Rightarrow>
      case lit CHR ''.'' r5 of None \<Rightarrow> None | Some r6 \<Rightarrow>
      case digits1 r6 of None \<Rightarrow> None | Some (d, r7) \<Rightarrow>
      case lit CHR ''/'' r7 of None \<Rightarrow> None | Some r8 \<Rightarrow>
      case digits1 r8 of None \<Rightarrow> None | Some (e, r9) \<Rightarrow>
        Some (a @ ''.'' @ b @ ''.'' @ c @ ''.'' @ d @ ''/'' @ e))"

text \<open>\<open>re.search\<close>: the match at the leftmost position that has one (\<open>match.group(0)\<close>).\<close>

fun re_search :: "string \<Rightarrow> string option" where
  "re_search [] = None"
| "re_search (c # cs) =
     (case match_here (c # cs) of
        Some m \<Rightarrow> Some m
      | None \<Rightarrow> re_search cs)"




section \<open>Exceptions\<close>

text \<open>
  The exceptions the program can meet. \<open>SystemExit\<close> is what \<open>sys.exit\<close> raises; it
  derives from \<open>BaseException\<close> and not from \<open>Exception\<close>, so \<open>except Exception\<close>
  does not catch it. \<open>ValueError\<close> and \<open>OSError\<close> derive from \<open>Exception\<close>.
\<close>

datatype py_exc = ValueError string | OSError string | SystemExit int

fun is_Exception :: "py_exc \<Rightarrow> bool" where
  "is_Exception (ValueError msg) = True"
| "is_Exception (OSError msg) = True"
| "is_Exception (SystemExit code) = False"

section \<open>\<open>ipaddress.ip_interface\<close>\<close>

text \<open>
  The standard library's parser, followed on the IPv4 path. The IPv6 attempt that
  \<open>ip_interface\<close> makes after a failed IPv4 parse needs at least two colons in the
  address, and the text the regular expression returns has none, so it fails there.
\<close>

definition parse_octet :: "string \<Rightarrow> int option" where
  "parse_octet octet_str =
     (if octet_str = [] then None
      else if \<not> list_all isdigit octet_str then None
      else if length octet_str > 3 then None
      else if octet_str \<noteq> ''0'' \<and> hd octet_str = CHR ''0'' then None
      else let octet_int = int_of_digits octet_str
           in if octet_int > 255 then None else Some octet_int)"

definition ip_int_from_string :: "string \<Rightarrow> int option" where
  "ip_int_from_string ip_str =
     (let octets = split CHR ''.'' ip_str
      in if length octets \<noteq> 4 then None
         else (case those (map parse_octet octets) of
                 None \<Rightarrow> None
               | Some bs \<Rightarrow> Some (foldl (\<lambda>acc b. 256 * acc + b) 0 bs)))"

definition ALL_ONES :: int where
  "ALL_ONES = 2 ^ 32 - 1"

definition max_prefixlen :: int where
  "max_prefixlen = 32"

definition prefix_from_prefix_string :: "string \<Rightarrow> int option" where
  "prefix_from_prefix_string prefixlen_str =
     (if \<not> (prefixlen_str \<noteq> [] \<and> list_all isdigit prefixlen_str) then None
      else let prefixlen = int_of_digits prefixlen_str
           in if \<not> (0 \<le> prefixlen \<and> prefixlen \<le> max_prefixlen) then None
              else Some prefixlen)"

text \<open>The number of zero bits at the low end of \<open>number\<close>, at most \<open>bits\<close>.\<close>

fun count_righthand_zero_bits :: "int \<Rightarrow> nat \<Rightarrow> nat" where
  "count_righthand_zero_bits number 0 = 0"
| "count_righthand_zero_bits number (Suc bits) =
     (if number = 0 then Suc bits
      else if odd number then 0
      else Suc (count_righthand_zero_bits (number div 2) bits))"

definition prefix_from_ip_int :: "int \<Rightarrow> int option" where
  "prefix_from_ip_int ip_int =
     (let trailing_zeroes = count_righthand_zero_bits ip_int (nat max_prefixlen);
          prefixlen = nat max_prefixlen - trailing_zeroes;
          leading_ones = drop_bit trailing_zeroes ip_int;
          all_ones = push_bit prefixlen 1 - 1
      in if leading_ones \<noteq> all_ones then None else Some (int prefixlen))"

text \<open>A mask written as a dotted quad: a netmask, or else a hostmask.\<close>

definition prefix_from_ip_string :: "string \<Rightarrow> int option" where
  "prefix_from_ip_string ip_str =
     (case ip_int_from_string ip_str of
        None \<Rightarrow> None
      | Some ip_int \<Rightarrow>
          (case prefix_from_ip_int ip_int of
             Some p \<Rightarrow> Some p
           | None \<Rightarrow> prefix_from_ip_int (ip_int XOR ALL_ONES)))"

definition make_netmask :: "string \<Rightarrow> int option" where
  "make_netmask arg =
     (case prefix_from_prefix_string arg of
        Some p \<Rightarrow> Some p
      | None \<Rightarrow> prefix_from_ip_string arg)"

definition ip_int_from_prefix :: "int \<Rightarrow> int" where
  "ip_int_from_prefix prefixlen = ALL_ONES XOR (drop_bit (nat prefixlen) ALL_ONES)"

text \<open>
  An \<open>IPv4Interface\<close>: the address, and its network built with \<open>strict=False\<close>, which
  clears the host bits of the network address.
\<close>

record ipv4_interface =
  ip_int :: int
  network_address :: int
  prefixlen :: int

definition IPv4Interface :: "string \<Rightarrow> ipv4_interface option" where
  "IPv4Interface address =
     (let addr = split CHR ''/'' address
      in if length addr > 2 then None
         else (case ip_int_from_string (hd addr) of
                 None \<Rightarrow> None
               | Some a \<Rightarrow>
                   (case (if length addr > 1 then make_netmask (addr ! 1)
                          else Some max_prefixlen) of
                      None \<Rightarrow> None
                    | Some p \<Rightarrow>
                        Some \<lparr>ip_int = a,
                              network_address = a AND ip_int_from_prefix p,
                              prefixlen = p\<rparr>)))"

definition repr :: "string \<Rightarrow> string" where
  "repr s = [CHR 0x27] @ s @ [CHR 0x27]"

definition ip_interface :: "string \<Rightarrow> py_exc + ipv4_interface" where
  "ip_interface address =
     (case IPv4Interface address of
        Some iface \<Rightarrow> Inr iface
      | None \<Rightarrow>
          Inl (ValueError (repr address @ '' does not appear to be an IPv4 or IPv6 interface'')))"

text \<open>\<open>str\<close> of an address and of a network, and \<open>network.num_addresses\<close>.\<close>

definition str_address :: "int \<Rightarrow> string" where
  "str_address a =
     str_int (drop_bit 24 a AND 255) @ ''.'' @ str_int (drop_bit 16 a AND 255) @ ''.'' @
     str_int (drop_bit 8 a AND 255) @ ''.'' @ str_int (a AND 255)"

definition str_network :: "ipv4_interface \<Rightarrow> string" where
  "str_network iface = str_address (network_address iface) @ ''/'' @ str_int (prefixlen iface)"

definition num_addresses :: "ipv4_interface \<Rightarrow> int" where
  "num_addresses iface =
     (let netmask = ip_int_from_prefix (prefixlen iface);
          hostmask = netmask XOR ALL_ONES;
          broadcast_address = network_address iface OR hostmask
      in broadcast_address - network_address iface + 1)"

section \<open>The subnet file\<close>

text \<open>
  What the program can observe of \<open>ip.txt\<close> at one moment: the file is missing
  (\<open>stat\<close> and \<open>read_text\<close> raise \<open>OSError\<close>), or it is there with a modification time
  and cannot be read or decoded, or it is there with a modification time and a text.
\<close>

datatype ip_file = Missing | Unreadable int py_exc | Readable int string

fun stat_mtime :: "ip_file \<Rightarrow> py_exc + int" where
  "stat_mtime Missing = Inl (OSError ''No such file or directory'')"
| "stat_mtime (Unreadable mtime e) = Inr mtime"
| "stat_mtime (Readable mtime txt) = Inr mtime"

fun read_text :: "ip_file \<Rightarrow> py_exc + string" where
  "read_text Missing = Inl (OSError ''No such file or directory'')"
| "read_text (Unreadable mtime e) = Inl e"
| "read_text (Readable mtime txt) = Inr txt"

text \<open>The part of \<open>load_network_from_file\<close> after the file is read.\<close>

definition load_network_from_text :: "string \<Rightarrow> py_exc + (string \<times> string \<times> int)" where
  "load_network_from_text txt =
     (let line = strip txt
      in case re_search line of
           None \<Rightarrow> Inl (ValueError ''No valid IP/CIDR found in ip.txt'')
         | Some ip_cidr \<Rightarrow>
             (case ip_interface ip_cidr of
                Inl e \<Rightarrow> Inl e
              | Inr iface \<Rightarrow>
                  Inr (str_network iface, str_address (ip_int iface), num_addresses iface)))"

definition load_network_from_file :: "ip_file \<Rightarrow> py_exc + (string \<times> string \<times> int)" where
  "load_network_from_file f =
     (case read_text f of
        Inl e \<Rightarrow> Inl e
      | Inr txt \<Rightarrow> load_network_from_text txt)"

section \<open>Dictionaries\<close>

text \<open>
  A Python \<open>dict\<close> keeps its keys in insertion order, and an assignment to a key that
  is already there replaces the value in place: an association list with \<open>dict_set\<close>.
\<close>

definition keys :: "('k \<times> 'v) list \<Rightarrow> 'k list" where
  "keys d = map fst d"

fun dict_set :: "'k \<Rightarrow> 'v \<Rightarrow> ('k \<times> 'v) list \<Rightarrow> ('k \<times> 'v) list" where
  "dict_set k v [] = [(k, v)]"
| "dict_set k v ((k', v') # d) =
     (if k' = k then (k, v) # d else (k', v') # dict_set k v d)"

section \<open>\<open>ScanThread.run\<close>\<close>

record device =
  ip :: string
  mac :: string
  vendor :: string

type_synonym snapshot = "(string \<times> device) list"

text \<open>One answer of \<open>srp\<close>: the received packet's \<open>psrc\<close> and \<open>hwsrc\<close>.\<close>

record reply =
  psrc :: string
  hwsrc :: string

text \<open>\<open>str.lower()\<close> on code points below 256.\<close>

definition lower_char :: "char \<Rightarrow> char" where
  "lower_char c =
     (let n = (of_char c :: nat)
      in if (65 \<le> n \<and> n \<le> 90) \<or> (192 \<le> n \<and> n \<le> 222 \<and> n \<noteq> 215)
         then char_of (n + 32) else c)"

definition lower :: "string \<Rightarrow> string" where
  "lower s = map lower_char s"

text \<open>
  \<open>self.parser.get_manuf(mac) or "Unknown"\<close>: the vendor table of \<open>manuf\<close> is the
  parameter \<open>get_manuf\<close>; \<open>None\<close> and the empty string both give \<open>"Unknown"\<close>.
\<close>

definition vendor_or_unknown :: "(string \<Rightarrow> string option) \<Rightarrow> string \<Rightarrow> string" where
  "vendor_or_unknown get_manuf m =
     (case get_manuf m of
        None \<Rightarrow> ''Unknown''
      | Some v \<Rightarrow> if v = [] then ''Unknown'' else v)"

fun run_loop :: "(string \<Rightarrow> string option) \<Rightarrow> reply list \<Rightarrow> snapshot \<Rightarrow> snapshot" where
  "run_loop get_manuf [] devs = devs"
| "run_loop get_manuf (r # answers) devs =
     (let m = lower (hwsrc r);
          v = vendor_or_unknown get_manuf m
      in run_loop get_manuf answers
           (dict_set (psrc r) \<lparr>ip = psrc r, mac = m, vendor = v\<rparr> devs))"

text \<open>The dictionary that \<open>run\<close> emits with \<open>finished_scan\<close>.\<close>

definition run :: "(string \<Rightarrow> string option) \<Rightarrow> reply list \<Rightarrow> snapshot" where
  "run get_manuf answers = run_loop get_manuf answers []"

section \<open>The \<open>Scanner\<close> object\<close>

text \<open>The lines the program prints with \<open>log\<close>, one constructor per format string.\<close>

datatype log_line =
    LogINIT string
  | LogWARN int
  | LogERROR py_exc
  | LogINFO
  | LogME string string
  | LogNEW string string string
  | LogON string string
  | LogOFF string

text \<open>A row of the table: the texts of its three items and their background colour.\<close>

record row =
  ip_item :: string
  mac_item :: string
  vendor_item :: string
  background :: "string option"

text \<open>
  The fields of \<open>Scanner\<close>. \<open>timer_interval\<close> is the interval the scan timer was
  started with. \<open>running\<close> lists the \<open>ScanThread\<close>s that were started and whose
  \<open>finished\<close> signal has not been delivered yet, each with the network it scans.
\<close>

record scanner =
  network :: string
  my_ip :: string
  hosts :: int
  devices :: snapshot
  scanning :: bool
  last_ip_mtime :: "int option"
  status_label :: string
  table :: "row list"
  timer_interval :: int
  watch_timer_interval :: int
  running :: "string list"

definition MAX_HOSTS_WARNING :: int where
  "MAX_HOSTS_WARNING = 4096"

text \<open>
  \<open>safe_load_ip\<close>: the lines it logs, and either the exception that leaves it or the
  modification time it stores in \<open>self.last_ip_mtime\<close> with the triple it returns.
\<close>

definition except_exit ::
  "log_line list \<Rightarrow> py_exc \<Rightarrow> log_line list \<times> (py_exc + 'a)" where
  "except_exit l e =
     (if is_Exception e then (l @ [LogERROR e], Inl (SystemExit 1)) else (l, Inl e))"

definition safe_load_ip ::
  "ip_file \<Rightarrow> log_line list \<times> (py_exc + int \<times> string \<times> string \<times> int)" where
  "safe_load_ip f =
     (case load_network_from_file f of
        Inl e \<Rightarrow> except_exit [] e
      | Inr (network', my_ip', hosts') \<Rightarrow>
          (let l = LogINIT network' #
                   (if hosts' > MAX_HOSTS_WARNING then [LogWARN hosts'] else [])
           in case stat_mtime f of
                Inl e \<Rightarrow> except_exit l e
              | Inr mtime \<Rightarrow> (l, Inr (mtime, network', my_ip', hosts'))))"

definition update_status :: "scanner \<Rightarrow> scanner" where
  "update_status s =
     s\<lparr>status_label :=
          ''Network: '' @ network s @ '' | Your IP: '' @ my_ip s @ '' | Auto scan''\<rparr>"

text \<open>
  \<open>check_ip_file\<close>, the slot of the watch timer. An exception raised inside its
  \<open>try\<close> is swallowed when it is an \<open>Exception\<close>; any other leaves the slot.
\<close>

definition check_ip_file :: "ip_file \<Rightarrow> scanner \<Rightarrow> log_line list \<times> (py_exc + scanner)" where
  "check_ip_file f s =
     (case stat_mtime f of
        Inl e \<Rightarrow> if is_Exception e then ([], Inr s) else ([], Inl e)
      | Inr mtime \<Rightarrow>
          if Some mtime \<noteq> last_ip_mtime s then
            (case safe_load_ip f of
               (l, Inl e) \<Rightarrow>
                 if is_Exception e then (LogINFO # l, Inr s) else (LogINFO # l, Inl e)
             | (l, Inr (mtime', network', my_ip', hosts')) \<Rightarrow>
                 (LogINFO # l,
                  Inr (update_status
                        (s\<lparr>last_ip_mtime := Some mtime', network := network',
                           my_ip := my_ip', hosts := hosts'\<rparr>))))
          else ([], Inr s))"

definition get_scan_interval :: "scanner \<Rightarrow> int" where
  "get_scan_interval s =
     (if hosts s \<le> 256 then 1000
      else if hosts s \<le> 1024 then 2000
      else 4000)"

definition start_scan :: "scanner \<Rightarrow> scanner" where
  "start_scan s =
     (if scanning s then s
      else s\<lparr>scanning := True, running := running s @ [network s]\<rparr>)"

text \<open>
  The slot connected to \<open>thread.finished\<close>. The signal comes from a thread that was
  started, so nothing happens while \<open>running\<close> is empty.
\<close>

definition thread_finished :: "scanner \<Rightarrow> scanner" where
  "thread_finished s =
     (case running s of
        [] \<Rightarrow> s
      | t # ts \<Rightarrow> s\<lparr>scanning := False, running := ts\<rparr>)"

text \<open>\<open>update\<close>: the console lines, the rebuilt table, and the new \<open>self.devices\<close>.\<close>

definition log_fresh :: "scanner \<Rightarrow> string \<times> device \<Rightarrow> log_line" where
  "log_fresh s e =
     (case e of (k, d) \<Rightarrow>
        if k = my_ip s then LogME k (mac d)
        else if k \<notin> set (keys (devices s)) then LogNEW k (mac d) (vendor d)
        else LogON k (mac d))"

definition table_row :: "scanner \<Rightarrow> string \<times> device \<Rightarrow> row" where
  "table_row s e =
     (case e of (k, d) \<Rightarrow>
        \<lparr>ip_item = ip d, mac_item = mac d, vendor_item = vendor d,
         background =
           (if k = my_ip s then Some ''#b6fcb6''
            else if k \<notin> set (keys (devices s)) then Some ''#fff3b0''
            else None)\<rparr>)"

definition update :: "snapshot \<Rightarrow> scanner \<Rightarrow> log_line list \<times> scanner" where
  "update new_devices s =
     (map (log_fresh s) new_devices @
      map LogOFF (filter (\<lambda>k. k \<notin> set (keys new_devices)) (keys (devices s))),
      s\<lparr>table := map (table_row s) new_devices, devices := new_devices\<rparr>)"

text \<open>
  \<open>Scanner.__init__\<close>: load the subnet or leave with \<open>SystemExit\<close>, show the status,
  start both timers, and start the first scan.
\<close>

definition init :: "ip_file \<Rightarrow> log_line list \<times> (py_exc + scanner)" where
  "init f =
     (case safe_load_ip f of
        (l, Inl e) \<Rightarrow> (l, Inl e)
      | (l, Inr (mtime, network', my_ip', hosts')) \<Rightarrow>
          (let s = update_status
                     \<lparr>network = network', my_ip = my_ip', hosts = hosts',
                      devices = [], scanning = False, last_ip_mtime = Some mtime,
                      status_label = [], table = [], timer_interval = 0,
                      watch_timer_interval = 0, running = []\<rparr>;
               s = s\<lparr>timer_interval := get_scan_interval s\<rparr>;
               s = s\<lparr>watch_timer_interval := 1000\<rparr>
           in (l, Inr (start_scan s))))"

section \<open>The event loop\<close>

text \<open>
  All slots run in the main thread, one at a time. The events are a tick of the scan
  timer, a tick of the watch timer with what \<open>ip.txt\<close> is at that moment, the
  \<open>finished_scan\<close> signal of a sweep with the answers it collected, and the \<open>finished\<close>
  signal of a thread. An exception that leaves a slot, or \<open>__init__\<close>, ends the process.
\<close>

datatype event = ScanTimer | WatchTimer ip_file | FinishedScan "reply list" | ThreadFinished

datatype process = Running scanner | Terminated py_exc

fun step :: "(string \<Rightarrow> string option) \<Rightarrow> event \<Rightarrow> scanner \<Rightarrow> log_line list \<times> process" where
  "step get_manuf ScanTimer s = ([], Running (start_scan s))"
| "step get_manuf (WatchTimer f) s =
     (case check_ip_file f s of
        (l, Inl e) \<Rightarrow> (l, Terminated e)
      | (l, Inr s') \<Rightarrow> (l, Running s'))"
| "step get_manuf (FinishedScan answers) s =
     (case update (run get_manuf answers) s of (l, s') \<Rightarrow> (l, Running s'))"
| "step get_manuf ThreadFinished s = ([], Running (thread_finished s))"

fun exec ::
  "(string \<Rightarrow> string option) \<Rightarrow> event list \<Rightarrow> log_line list \<times> process \<Rightarrow>
   log_line list \<times> process" where
  "exec get_manuf [] c = c"
| "exec get_manuf (ev # evs) (l, Terminated e) = (l, Terminated e)"
| "exec get_manuf (ev # evs) (l, Running s) =
     (case step get_manuf ev s of (l', p) \<Rightarrow> exec get_manuf evs (l @ l', p))"

definition main ::
  "(string \<Rightarrow> string option) \<Rightarrow> ip_file \<Rightarrow> event list \<Rightarrow> log_line list \<times> process" where
  "main get_manuf f evs =
     (case init f of
        (l, Inl e) \<Rightarrow> (l, Terminated e)
      | (l, Inr s) \<Rightarrow> exec get_manuf evs (l, Running s))"

section \<open>What a log line tells the renderer\<close>

datatype transition = SELF | NEW | PRESENT | ABSENT

text \<open>The classification and the address of a line, for the four lines of \<open>update\<close>.\<close>

fun transition_of :: "log_line \<Rightarrow> (string \<times> transition) option" where
  "transition_of (LogME k m) = Some (k, SELF)"
| "transition_of (LogNEW k m v) = Some (k, NEW)"
| "transition_of (LogON k m) = Some (k, PRESENT)"
| "transition_of (LogOFF k) = Some (k, ABSENT)"
| "transition_of (LogINIT n) = None"
| "transition_of (LogWARN h) = None"
| "transition_of (LogERROR e) = None"
| "transition_of LogINFO = None"

definition transitions :: "log_line list \<Rightarrow> (string \<times> transition) list" where
  "transitions l = List.map_filter transition_of l"

fun hardwareId_of :: "log_line \<Rightarrow> string option" where
  "hardwareId_of (LogME k m) = Some m"
| "hardwareId_of (LogNEW k m v) = Some m"
| "hardwareId_of (LogON k m) = Some m"
| "hardwareId_of (LogOFF k) = None"
| "hardwareId_of (LogINIT n) = None"
| "hardwareId_of (LogWARN h) = None"
| "hardwareId_of (LogERROR e) = None"
| "hardwareId_of LogINFO = None"

fun vendor_of :: "log_line \<Rightarrow> string option" where
  "vendor_of (LogNEW k m v) = Some v"
| "vendor_of (LogME k m) = None"
| "vendor_of (LogON k m) = None"
| "vendor_of (LogOFF k) = None"
| "vendor_of (LogINIT n) = None"
| "vendor_of (LogWARN h) = None"
| "vendor_of (LogERROR e) = None"
| "vendor_of LogINFO = None"


text \<open>The classification \<open>update\<close> gives to an address of the fresh dictionary.\<close>

definition classify :: "scanner \<Rightarrow> string \<Rightarrow> transition" where
  "classify s k =
     (if k = my_ip s then SELF
      else if k \<notin> set (keys (devices s)) then NEW
      else PRESENT)"

section \<open>Example states\<close>

text \<open>A \<open>Scanner\<close> that differs from a fresh one only in its number of hosts.\<close>

definition scanner_of_hosts :: "int \<Rightarrow> scanner" where
  "scanner_of_hosts h =
     \<lparr>network = [], my_ip = [], hosts = h, devices = [], scanning = False,
      last_ip_mtime = None, status_label = [], table = [], timer_interval = 0,
      watch_timer_interval = 0, running = []\<rparr>"

text \<open>
  A \<open>Scanner\<close> on \<open>10.0.0.0/24\<close> after its first sweep, which found two hosts, and
  the dictionary of a later sweep: the scanner's own address, one host seen before, one
  new host, and the other host of the first sweep missing.
\<close>

definition device_5 :: device where
  "device_5 = \<lparr>ip = ''10.0.0.5'', mac = ''aa:bb:cc:00:11:23'', vendor = ''Unknown''\<rparr>"

definition device_7 :: device where
  "device_7 = \<lparr>ip = ''10.0.0.7'', mac = ''aa:bb:cc:00:11:25'', vendor = ''Unknown''\<rparr>"

definition device_8 :: device where
  "device_8 = \<lparr>ip = ''10.0.0.8'', mac = ''aa:bb:cc:00:11:26'', vendor = ''Acme''\<rparr>"

definition device_9 :: device where
  "device_9 = \<lparr>ip = ''10.0.0.9'', mac = ''aa:bb:cc:00:11:99'', vendor = ''Acme''\<rparr>"

definition example_scanner :: scanner where
  "example_scanner =
     \<lparr>network = ''10.0.0.0/24'', my_ip = ''10.0.0.5'', hosts = 256,
      devices = [(''10.0.0.9'', device_9), (''10.0.0.7'', device_7)],
      scanning = False, last_ip_mtime = Some 1,
      status_label = ''Network: 10.0.0.0/24 | Your IP: 10.0.0.5 | Auto scan'',
      table =
        [\<lparr>ip_item = ''10.0.0.9'', mac_item = ''aa:bb:cc:00:11:99'', vendor_item = ''Acme'',
          background = Some ''#fff3b0''\<rparr>,
         \<lparr>ip_item = ''10.0.0.7'', mac_item = ''aa:bb:cc:00:11:25'', vendor_item = ''Unknown'',
          background = Some ''#fff3b0''\<rparr>],
      timer_interval = 1000, watch_timer_interval = 1000, running = []\<rparr>"

definition example_fresh :: snapshot where
  "example_fresh = [(''10.0.0.5'', device_5), (''10.0.0.7'', device_7), (''10.0.0.8'', device_8)]"

text \<open>The entry that \<open>run\<close> stores for one answer.\<close>

definition device_of_reply :: "(string \<Rightarrow> string option) \<Rightarrow> reply \<Rightarrow> device" where
  "device_of_reply get_manuf r =
     \<lparr>ip = psrc r, mac = lower (hwsrc r),
      vendor = vendor_or_unknown get_manuf (lower (hwsrc r))\<rparr>"

text \<open>
  Three answers of one sweep, two of them from the same address, and a vendor table
  that knows one hardware address.
\<close>

definition example_answers :: "reply list" where
  "example_answers =
     [\<lparr>psrc = ''10.0.0.9'', hwsrc = ''AA:BB:CC:00:11:24''\<rparr>,
      \<lparr>psrc = ''10.0.0.7'', hwsrc = ''AA:BB:CC:00:11:25''\<rparr>,
      \<lparr>psrc = ''10.0.0.9'', hwsrc = ''AA:BB:CC:00:11:99''\<rparr>]"

definition example_manuf :: "string \<Rightarrow> string option" where
  "example_manuf m = (if m = ''aa:bb:cc:00:11:99'' then Some ''Acme'' else None)"

text \<open>The \<open>Scanner\<close> that \<open>__init__\<close> leaves when \<open>ip.txt\<close> holds \<open>10.0.0.5/24\<close>.\<close>

definition example_started :: scanner where
  "example_started =
     \<lparr>network = ''10.0.0.0/24'', my_ip = ''10.0.0.5'', hosts = 256, devices = [],
      scanning = True, last_ip_mtime = Some 1,
      status_label = ''Network: 10.0.0.0/24 | Your IP: 10.0.0.5 | Auto scan'',
      table = [], timer_interval = 1000, watch_timer_interval = 1000,
      running = [''10.0.0.0/24'']\<rparr>"


text \<open>
  The invariant of the scheduler: at most one thread is started and not yet reported
  finished, and \<open>scanning\<close> is set exactly while there is one.
\<close>

definition sweep_inv :: "scanner \<Rightarrow> bool" where
  "sweep_inv s = (length (running s) \<le> 1 \<and> (scanning s \<longleftrightarrow> running s \<noteq> []))"

section \<open>The scan interval\<close>

text \<open>
  C5: the interval is 1000 ms up to 256 addresses, 2000 ms above 256 and up to 1024,
  and 4000 ms above 1024; so it never decreases when the number of addresses grows.
\<close>

theorem get_scan_interval_breakpoints:
  "(hosts s \<le> 256 \<longrightarrow> get_scan_interval s = 1000) \<and>
   (256 < hosts s \<and> hosts s \<le> 1024 \<longrightarrow> get_scan_interval s = 2000) \<and>
   (1024 < hosts s \<longrightarrow> get_scan_interval s = 4000) \<and>
   (hosts s \<le> hosts s' \<longrightarrow> get_scan_interval s \<le> get_scan_interval s')"
  by (simp add: get_scan_interval_def)

theorem get_scan_interval_breakpoints_witness:
  "get_scan_interval (scanner_of_hosts 0) = 1000 \<and>
   get_scan_interval (scanner_of_hosts 256) = 1000 \<and>
   get_scan_interval (scanner_of_hosts 257) = 2000 \<and>
   get_scan_interval (scanner_of_hosts 1024) = 2000 \<and>
   get_scan_interval (scanner_of_hosts 1025) = 4000 \<and>
   get_scan_interval (scanner_of_hosts 256) \<le> get_scan_interval (scanner_of_hosts 65536)"
  using get_scan_interval_breakpoints [of "scanner_of_hosts 0" "scanner_of_hosts 256"]
    get_scan_interval_breakpoints [of "scanner_of_hosts 257" "scanner_of_hosts 257"]
    get_scan_interval_breakpoints [of "scanner_of_hosts 1024" "scanner_of_hosts 1024"]
    get_scan_interval_breakpoints [of "scanner_of_hosts 1025" "scanner_of_hosts 1025"]
    get_scan_interval_breakpoints [of "scanner_of_hosts 256" "scanner_of_hosts 65536"]
  by (simp add: scanner_of_hosts_def)

section \<open>The diff of \<open>update\<close>\<close>

lemma keys_Nil: "keys [] = []"
  by (simp add: keys_def)

lemma keys_Cons: "keys (e # d) = fst e # keys d"
  by (simp add: keys_def)

lemma transitions_Nil: "transitions [] = []"
  by (simp add: transitions_def map_filter_simps)

lemma transitions_Cons:
  "transitions (x # xs) =
     (case transition_of x of None \<Rightarrow> transitions xs | Some t \<Rightarrow> t # transitions xs)"
  by (cases "transition_of x") (simp_all add: transitions_def map_filter_simps)

lemma transitions_append: "transitions (xs @ ys) = transitions xs @ transitions ys"
  by (induction xs) (simp_all add: transitions_Nil transitions_Cons split: option.splits)

lemma transitions_fresh:
  "transitions (map (log_fresh s) new) = map (\<lambda>k. (k, classify s k)) (keys new)"
  by (induction new)
    (auto simp: transitions_Nil transitions_Cons log_fresh_def keys_Nil keys_Cons classify_def)

lemma transitions_OFF: "transitions (map LogOFF ks) = map (\<lambda>k. (k, ABSENT)) ks"
  by (induction ks) (simp_all add: transitions_Nil transitions_Cons)

text \<open>
  The lines of one \<open>update\<close>, read as classifications: the fresh addresses in the order
  of the new dictionary, then the addresses only the old dictionary has.
\<close>

lemma transitions_update:
  "transitions (fst (update new s)) =
     map (\<lambda>k. (k, classify s k)) (keys new) @
     map (\<lambda>k. (k, ABSENT)) (filter (\<lambda>k. k \<notin> set (keys new)) (keys (devices s)))"
  by (simp add: update_def transitions_append transitions_fresh transitions_OFF)

lemma tags_of_keys:
  "distinct ks \<Longrightarrow>
   map snd (filter (\<lambda>e. fst e = a) (map (\<lambda>k. (k, t k)) ks)) = (if a \<in> set ks then [t a] else [])"
  by (induction ks) auto

lemma example_keys:
  "keys (devices example_scanner) = [''10.0.0.9'', ''10.0.0.7'']"
  "keys example_fresh = [''10.0.0.5'', ''10.0.0.7'', ''10.0.0.8'']"
  "my_ip example_scanner = ''10.0.0.5''"
  by (simp_all add: example_scanner_def example_fresh_def keys_def)

text \<open>
  C1: the keys of a dictionary are distinct. For every address \<open>a\<close>, the classifications
  that one \<open>update\<close> logs for \<open>a\<close> are: exactly one when \<open>a\<close> is in the new or in the old
  dictionary, and none otherwise. The one classification is SELF when \<open>a\<close> is in the
  new dictionary and is the scanner's own address, whether or not the old dictionary
  has it; NEW when \<open>a\<close> is in the new dictionary only; PRESENT when it is in both;
  ABSENT when it is in the old dictionary only.
\<close>

theorem update_classifies_once:
  assumes "distinct (keys (devices s))" and "distinct (keys new)"
  shows "map snd (filter (\<lambda>e. fst e = a) (transitions (fst (update new s)))) =
     (if a \<in> set (keys new)
      then [if a = my_ip s then SELF
            else if a \<notin> set (keys (devices s)) then NEW
            else PRESENT]
      else if a \<in> set (keys (devices s)) then [ABSENT]
      else [])"
proof -
  have d: "distinct (filter (\<lambda>k. k \<notin> set (keys new)) (keys (devices s)))"
    using assms(1) by simp
  show ?thesis
    by (simp add: transitions_update tags_of_keys [OF assms(2)] tags_of_keys [OF d] classify_def)
qed

theorem update_classifies_once_witness:
  "distinct (keys (devices example_scanner)) \<and> distinct (keys example_fresh) \<and>
   map snd (filter (\<lambda>e. fst e = ''10.0.0.5'')
     (transitions (fst (update example_fresh example_scanner)))) = [SELF] \<and>
   map snd (filter (\<lambda>e. fst e = ''10.0.0.7'')
     (transitions (fst (update example_fresh example_scanner)))) = [PRESENT] \<and>
   map snd (filter (\<lambda>e. fst e = ''10.0.0.8'')
     (transitions (fst (update example_fresh example_scanner)))) = [NEW] \<and>
   map snd (filter (\<lambda>e. fst e = ''10.0.0.9'')
     (transitions (fst (update example_fresh example_scanner)))) = [ABSENT] \<and>
   map snd (filter (\<lambda>e. fst e = ''10.0.0.6'')
     (transitions (fst (update example_fresh example_scanner)))) = []"
  using update_classifies_once [of example_scanner example_fresh "''10.0.0.5''"]
    update_classifies_once [of example_scanner example_fresh "''10.0.0.7''"]
    update_classifies_once [of example_scanner example_fresh "''10.0.0.8''"]
    update_classifies_once [of example_scanner example_fresh "''10.0.0.9''"]
    update_classifies_once [of example_scanner example_fresh "''10.0.0.6''"]
  by (simp add: example_keys)

text \<open>
  C7: after \<open>update\<close> the stored dictionary is the new one as it came, whatever the
  old one held; and every address that the old dictionary has and the new one lacks is
  logged ABSENT by this same \<open>update\<close>.
\<close>

theorem update_replaces_baseline:
  "devices (snd (update new s)) = new \<and>
   (\<forall>a. a \<in> set (keys (devices s)) \<and> a \<notin> set (keys new) \<longrightarrow>
        (a, ABSENT) \<in> set (transitions (fst (update new s))))"
  by (auto simp: transitions_update) (simp add: update_def)

theorem update_replaces_baseline_witness:
  "''10.0.0.9'' \<in> set (keys (devices example_scanner)) \<and>
   ''10.0.0.9'' \<notin> set (keys example_fresh) \<and>
   devices (snd (update example_fresh example_scanner)) = example_fresh \<and>
   (''10.0.0.9'', ABSENT) \<in> set (transitions (fst (update example_fresh example_scanner)))"
  using update_replaces_baseline [of example_fresh example_scanner]
  by (simp add: example_keys)

section \<open>The dictionary of a sweep\<close>

lemma keys_dict_set:
  "keys (dict_set k v d) = (if k \<in> set (keys d) then keys d else keys d @ [k])"
  by (induction d) (auto simp: keys_Nil keys_Cons)

lemma distinct_dict_set: "distinct (keys d) \<Longrightarrow> distinct (keys (dict_set k v d))"
  by (simp add: keys_dict_set)

lemma map_of_dict_set: "map_of (dict_set k v d) = (map_of d)(k \<mapsto> v)"
  by (induction d) (auto simp: fun_eq_iff)

lemma in_dict_set: "e \<in> set (dict_set k v d) \<Longrightarrow> e = (k, v) \<or> e \<in> set d"
  by (induction d) (auto split: if_splits)

lemma run_loop_device_of_reply:
  "run_loop g (r # answers) devs =
     run_loop g answers (dict_set (psrc r) (device_of_reply g r) devs)"
  by (simp add: device_of_reply_def Let_def)

lemma distinct_run_loop: "distinct (keys devs) \<Longrightarrow> distinct (keys (run_loop g answers devs))"
proof (induction answers arbitrary: devs)
  case Nil
  then show ?case by simp
next
  case (Cons r answers)
  from Cons.prems have "distinct (keys (dict_set (psrc r) (device_of_reply g r) devs))"
    by (rule distinct_dict_set)
  then show ?case unfolding run_loop_device_of_reply by (rule Cons.IH)
qed

lemma map_of_run_loop:
  "map_of (run_loop g answers devs) a =
     (case filter (\<lambda>r. psrc r = a) answers of
        [] \<Rightarrow> map_of devs a
      | r # rs \<Rightarrow> Some (device_of_reply g (last (r # rs))))"
proof (induction answers arbitrary: devs)
  case Nil
  then show ?case by simp
next
  case (Cons r answers)
  show ?case
    unfolding run_loop_device_of_reply Cons.IH
    by (cases "filter (\<lambda>r. psrc r = a) answers"; cases "psrc r = a")
      (auto simp: map_of_dict_set)
qed

lemma entries_ip_key_run_loop:
  "\<forall>e \<in> set devs. ip (snd e) = fst e \<Longrightarrow> \<forall>e \<in> set (run_loop g answers devs). ip (snd e) = fst e"
proof (induction answers arbitrary: devs)
  case Nil
  then show ?case by simp
next
  case (Cons r answers)
  have "ip (device_of_reply g r) = psrc r"
    by (simp add: device_of_reply_def)
  with Cons.prems
  have "\<forall>e \<in> set (dict_set (psrc r) (device_of_reply g r) devs). ip (snd e) = fst e"
    by (fastforce dest: in_dict_set)
  then show ?case unfolding run_loop_device_of_reply by (rule Cons.IH)
qed

lemma filter_key_map_of:
  "distinct (keys d) \<Longrightarrow>
   filter (\<lambda>e. fst e = a) d = (case map_of d a of None \<Rightarrow> [] | Some v \<Rightarrow> [(a, v)])"
proof (induction d)
  case Nil
  then show ?case by simp
next
  case (Cons e d)
  obtain k v where e: "e = (k, v)" by (cases e)
  from Cons.prems have d: "distinct (keys d)" and k: "k \<notin> set (keys d)"
    by (simp_all add: keys_Cons e)
  from k have none: "map_of d k = None"
    by (simp add: map_of_eq_None_iff keys_def)
  show ?case
  proof (cases "k = a")
    case True
    with none Cons.IH [OF d] show ?thesis by (simp add: e)
  next
    case False
    with Cons.IH [OF d] show ?thesis by (simp add: e)
  qed
qed

text \<open>
  C10: in the dictionary that a sweep emits, and that \<open>update\<close> stores as it is, the
  keys are distinct and every entry's \<open>ip\<close> field is its key. For every address \<open>a\<close>
  the dictionary has no entry when no answer came from \<open>a\<close>, and otherwise exactly one
  entry, with the hardware address and the vendor of the last answer that came from \<open>a\<close>.
\<close>

theorem run_snapshot:
  "distinct (keys (run g answers)) \<and>
   (\<forall>e \<in> set (run g answers). ip (snd e) = fst e) \<and>
   filter (\<lambda>e. fst e = a) (run g answers) =
     (case filter (\<lambda>r. psrc r = a) answers of
        [] \<Rightarrow> []
      | r # rs \<Rightarrow>
          [(a, \<lparr>ip = a, mac = lower (hwsrc (last (r # rs))),
                vendor = vendor_or_unknown g (lower (hwsrc (last (r # rs))))\<rparr>)]) \<and>
   devices (snd (update (run g answers) s)) = run g answers"
proof (intro conjI)
  show d: "distinct (keys (run g answers))"
    unfolding run_def by (rule distinct_run_loop) (simp add: keys_Nil)
  show "\<forall>e \<in> set (run g answers). ip (snd e) = fst e"
    unfolding run_def by (rule entries_ip_key_run_loop) simp
  have "psrc (last (r # rs)) = a" if "filter (\<lambda>r. psrc r = a) answers = r # rs" for r rs
  proof -
    have "last (r # rs) \<in> set (filter (\<lambda>r. psrc r = a) answers)"
      unfolding that by (rule last_in_set) simp
    then show ?thesis by simp
  qed
  then show "filter (\<lambda>e. fst e = a) (run g answers) =
     (case filter (\<lambda>r. psrc r = a) answers of
        [] \<Rightarrow> []
      | r # rs \<Rightarrow>
          [(a, \<lparr>ip = a, mac = lower (hwsrc (last (r # rs))),
                vendor = vendor_or_unknown g (lower (hwsrc (last (r # rs))))\<rparr>)])"
    unfolding filter_key_map_of [OF d]
    by (cases "filter (\<lambda>r. psrc r = a) answers")
      (simp_all add: run_def map_of_run_loop device_of_reply_def)
  show "devices (snd (update (run g answers) s)) = run g answers"
    by (simp add: update_def)
qed

lemma lower_examples:
  "lower ''AA:BB:CC:00:11:24'' = ''aa:bb:cc:00:11:24''"
  "lower ''AA:BB:CC:00:11:25'' = ''aa:bb:cc:00:11:25''"
  "lower ''AA:BB:CC:00:11:99'' = ''aa:bb:cc:00:11:99''"
  by code_simp+

theorem run_snapshot_witness:
  "filter (\<lambda>e. fst e = ''10.0.0.9'') (run example_manuf example_answers) =
     [(''10.0.0.9'', \<lparr>ip = ''10.0.0.9'', mac = ''aa:bb:cc:00:11:99'', vendor = ''Acme''\<rparr>)] \<and>
   filter (\<lambda>e. fst e = ''10.0.0.7'') (run example_manuf example_answers) =
     [(''10.0.0.7'', \<lparr>ip = ''10.0.0.7'', mac = ''aa:bb:cc:00:11:25'', vendor = ''Unknown''\<rparr>)] \<and>
   filter (\<lambda>e. fst e = ''10.0.0.8'') (run example_manuf example_answers) = [] \<and>
   keys (run example_manuf example_answers) = [''10.0.0.9'', ''10.0.0.7'']"
proof -
  have k: "keys (run example_manuf example_answers) = [''10.0.0.9'', ''10.0.0.7'']"
    by (simp add: run_def example_answers_def keys_def Let_def)
  from run_snapshot [of example_manuf example_answers "''10.0.0.9''"]
    run_snapshot [of example_manuf example_answers "''10.0.0.7''"]
    run_snapshot [of example_manuf example_answers "''10.0.0.8''"] k
  show ?thesis
    by (simp add: example_answers_def example_manuf_def vendor_or_unknown_def lower_examples)
qed

section \<open>Runs on example files\<close>

lemma load_24:
  "load_network_from_text ''10.0.0.5/24'' = Inr (''10.0.0.0/24'', ''10.0.0.5'', 256)"
  by code_simp


lemma load_none:
  "load_network_from_text ''no subnet'' = Inl (ValueError ''No valid IP/CIDR found in ip.txt'')"
  by code_simp

lemma init_24: "init (Readable 1 ''10.0.0.5/24'') = ([LogINIT ''10.0.0.0/24''], Inr example_started)"
  by (simp add: init_def safe_load_ip_def load_network_from_file_def load_24
      MAX_HOSTS_WARNING_def update_status_def get_scan_interval_def start_scan_def
      example_started_def Let_def)






section \<open>One sweep at a time\<close>

lemma sweep_inv_start_scan: "sweep_inv s \<Longrightarrow> sweep_inv (start_scan s)"
  by (auto simp: sweep_inv_def start_scan_def)

lemma sweep_inv_thread_finished: "sweep_inv s \<Longrightarrow> sweep_inv (thread_finished s)"
  by (cases "running s") (auto simp: sweep_inv_def thread_finished_def)

lemma sweep_inv_update: "sweep_inv s \<Longrightarrow> sweep_inv (snd (update new s))"
  by (simp add: sweep_inv_def update_def)

lemma check_ip_file_frame:
  "check_ip_file f s = (l, Inr s') \<Longrightarrow>
   scanning s' = scanning s \<and> running s' = running s \<and>
   devices s' = devices s \<and> timer_interval s' = timer_interval s"
  by (auto simp: check_ip_file_def update_status_def
      split: sum.splits if_splits prod.splits)

lemma sweep_inv_step:
  assumes "sweep_inv s" and "step g ev s = (l, Running s')"
  shows "sweep_inv s'"
proof (cases ev)
  case ScanTimer
  with assms show ?thesis by (auto simp: sweep_inv_start_scan)
next
  case (WatchTimer f)
  with assms(2) obtain l' where "check_ip_file f s = (l', Inr s')"
    by (auto split: prod.splits sum.splits)
  from check_ip_file_frame [OF this] assms(1) show ?thesis by (simp add: sweep_inv_def)
next
  case (FinishedScan answers)
  with assms(2) have "s' = snd (update (run g answers) s)"
    by (auto split: prod.splits)
  with assms(1) show ?thesis by (simp add: sweep_inv_update)
next
  case ThreadFinished
  with assms show ?thesis by (auto simp: sweep_inv_thread_finished)
qed

lemma sweep_inv_exec:
  "sweep_inv s \<Longrightarrow> snd (exec g evs (l, Running s)) = Running s' \<Longrightarrow> sweep_inv s'"
proof (induction evs arbitrary: s l)
  case Nil
  then show ?case by simp
next
  case (Cons ev evs)
  obtain l' p where st: "step g ev s = (l', p)" by (cases "step g ev s")
  show ?case
  proof (cases p)
    case (Running s1)
    from Cons.prems(1) st [unfolded Running] have "sweep_inv s1" by (rule sweep_inv_step)
    moreover from Cons.prems(2) st Running
    have "snd (exec g evs (l @ l', Running s1)) = Running s'" by simp
    ultimately show ?thesis by (rule Cons.IH)
  next
    case (Terminated e)
    with Cons.prems(2) st show ?thesis by (cases evs) simp_all
  qed
qed

lemma sweep_inv_init: "init f = (l, Inr s) \<Longrightarrow> sweep_inv s"
  by (auto simp: init_def Let_def sweep_inv_def start_scan_def update_status_def
      split: prod.splits sum.splits)

text \<open>
  C4: in every state the program can reach, at most one sweep is started and not yet
  reported finished, and \<open>scanning\<close> is set exactly while there is one; a tick of
  the scan timer that arrives then starts no sweep and leaves the state as it is, so
  nothing is queued for later.
\<close>

theorem at_most_one_sweep:
  assumes "snd (main g f evs) = Running s"
  shows "length (running s) \<le> 1 \<and> (scanning s \<longleftrightarrow> running s \<noteq> []) \<and>
         (running s \<noteq> [] \<longrightarrow>
            step g ScanTimer s = ([], Running s) \<and> running (start_scan s) = running s)"
proof -
  obtain l r where i: "init f = (l, r)" by (cases "init f")
  from assms i obtain s0 where r: "r = Inr s0"
    by (cases r) (simp_all add: main_def)
  from i r have "sweep_inv s0" by (simp add: sweep_inv_init)
  moreover from assms i r have "snd (exec g evs (l, Running s0)) = Running s"
    by (simp add: main_def)
  ultimately have "sweep_inv s" by (rule sweep_inv_exec)
  then show ?thesis by (auto simp: sweep_inv_def start_scan_def)
qed

theorem at_most_one_sweep_witness:
  "snd (main example_manuf (Readable 1 ''10.0.0.5/24'') [ScanTimer]) = Running example_started \<and>
   running example_started = [''10.0.0.0/24''] \<and> scanning example_started \<and>
   step example_manuf ScanTimer example_started = ([], Running example_started)"
proof -
  have m: "snd (main example_manuf (Readable 1 ''10.0.0.5/24'') [ScanTimer]) = Running example_started"
    by (simp add: main_def init_24 start_scan_def example_started_def)
  from at_most_one_sweep [OF m] m show ?thesis
    by (simp add: example_started_def)
qed

section \<open>A reload that fails\<close>

text \<open>
  C2: the program starts on \<open>10.0.0.5/24\<close>; then \<open>ip.txt\<close> is rewritten to a text with
  no subnet in it, and the watch timer ticks. The failure is logged, \<open>safe_load_ip\<close>
  calls \<open>sys.exit(1)\<close>, the \<open>except Exception\<close> of \<open>check_ip_file\<close> does not catch
  the \<open>SystemExit\<close>, and the process ends.
\<close>

theorem reload_failure_exits:
  "main example_manuf (Readable 1 ''10.0.0.5/24'') [WatchTimer (Readable 2 ''no subnet'')] =
     ([LogINIT ''10.0.0.0/24'', LogINFO,
       LogERROR (ValueError ''No valid IP/CIDR found in ip.txt'')],
      Terminated (SystemExit 1))"
  by (simp add: main_def init_24 check_ip_file_def safe_load_ip_def load_network_from_file_def
      load_none except_exit_def example_started_def)

section \<open>A reload that succeeds\<close>





section \<open>What one \<open>update\<close> emits\<close>

text \<open>
  One \<open>update\<close> in which a host of the last sweep is missing: its line is
  \<open>[OFF] 10.0.0.9\<close>, with no hardware address and no vendor, and the table has no row
  for it.
\<close>

theorem absent_line_without_device_fields:
  "fst (update example_fresh example_scanner) =
     [LogME ''10.0.0.5'' ''aa:bb:cc:00:11:23'', LogON ''10.0.0.7'' ''aa:bb:cc:00:11:25'',
      LogNEW ''10.0.0.8'' ''aa:bb:cc:00:11:26'' ''Acme'', LogOFF ''10.0.0.9''] \<and>
   transition_of (LogOFF ''10.0.0.9'') = Some (''10.0.0.9'', ABSENT) \<and>
   hardwareId_of (LogOFF ''10.0.0.9'') = None \<and>
   vendor_of (LogOFF ''10.0.0.9'') = None \<and>
   map ip_item (table (snd (update example_fresh example_scanner))) =
     [''10.0.0.5'', ''10.0.0.7'', ''10.0.0.8'']"
  by (simp add: update_def log_fresh_def table_row_def example_fresh_def example_scanner_def
      device_5_def device_7_def device_8_def device_9_def keys_def)

lemma line_fields_fresh:
  "map (\<lambda>l. (transition_of l, hardwareId_of l, vendor_of l)) (map (log_fresh s) new) =
     map (\<lambda>(k, d). (Some (k, classify s k), Some (mac d),
                      if classify s k = NEW then Some (vendor d) else None)) new"
  by (induction new) (auto simp: log_fresh_def classify_def)

text \<open>
  C8: for every address of the new dictionary, in its order, \<open>update\<close> logs one line
  with the classification, the address and the hardware address, and with the vendor
  when the classification is NEW, and builds one table row with the address, the
  hardware address and the vendor, coloured by the classification. For every address
  that only the old dictionary has, it logs one line with the classification ABSENT
  and the address, without hardware address or vendor, and builds no row.
\<close>

theorem update_events:
  "map (\<lambda>l. (transition_of l, hardwareId_of l, vendor_of l)) (fst (update new s)) =
     map (\<lambda>(k, d). (Some (k, classify s k), Some (mac d),
                      if classify s k = NEW then Some (vendor d) else None)) new @
     map (\<lambda>k. (Some (k, ABSENT), None, None))
       (filter (\<lambda>k. k \<notin> set (keys new)) (keys (devices s))) \<and>
   map (\<lambda>r. (ip_item r, mac_item r, vendor_item r, background r))
       (table (snd (update new s))) =
     map (\<lambda>(k, d). (ip d, mac d, vendor d,
                      case classify s k of
                        SELF \<Rightarrow> Some ''#b6fcb6''
                      | NEW \<Rightarrow> Some ''#fff3b0''
                      | PRESENT \<Rightarrow> None
                      | ABSENT \<Rightarrow> None)) new"
proof
  show "map (\<lambda>l. (transition_of l, hardwareId_of l, vendor_of l)) (fst (update new s)) =
     map (\<lambda>(k, d). (Some (k, classify s k), Some (mac d),
                      if classify s k = NEW then Some (vendor d) else None)) new @
     map (\<lambda>k. (Some (k, ABSENT), None, None))
       (filter (\<lambda>k. k \<notin> set (keys new)) (keys (devices s)))"
    using line_fields_fresh [of s new] by (simp add: update_def comp_def)
  show "map (\<lambda>r. (ip_item r, mac_item r, vendor_item r, background r))
       (table (snd (update new s))) =
     map (\<lambda>(k, d). (ip d, mac d, vendor d,
                      case classify s k of
                        SELF \<Rightarrow> Some ''#b6fcb6''
                      | NEW \<Rightarrow> Some ''#fff3b0''
                      | PRESENT \<Rightarrow> None
                      | ABSENT \<Rightarrow> None)) new"
    by (induction new) (auto simp: update_def table_row_def classify_def)
qed

theorem update_events_witness:
  "map (\<lambda>l. (transition_of l, hardwareId_of l, vendor_of l))
     (fst (update example_fresh example_scanner)) =
     [(Some (''10.0.0.5'', SELF), Some ''aa:bb:cc:00:11:23'', None),
      (Some (''10.0.0.7'', PRESENT), Some ''aa:bb:cc:00:11:25'', None),
      (Some (''10.0.0.8'', NEW), Some ''aa:bb:cc:00:11:26'', Some ''Acme''),
      (Some (''10.0.0.9'', ABSENT), None, None)] \<and>
   map (\<lambda>r. (ip_item r, mac_item r, vendor_item r, background r))
     (table (snd (update example_fresh example_scanner))) =
     [(''10.0.0.5'', ''aa:bb:cc:00:11:23'', ''Unknown'', Some ''#b6fcb6''),
      (''10.0.0.7'', ''aa:bb:cc:00:11:25'', ''Unknown'', None),
      (''10.0.0.8'', ''aa:bb:cc:00:11:26'', ''Acme'', Some ''#fff3b0'')]"
  using update_events [of example_fresh example_scanner]
  by (simp add: classify_def example_fresh_def example_scanner_def keys_def
      device_5_def device_7_def device_8_def device_9_def)

section \<open>The warning for a large subnet\<close>




section \<open>The regular expression returns the first match\<close>



lemma sep_not_digit [simp]: "\<not> isdigit CHR ''.''" "\<not> isdigit CHR ''/''"
  by (simp_all add: isdigit_def)














lemma isspace_not_sep: "isspace c \<Longrightarrow> c \<noteq> CHR ''.'' \<and> c \<noteq> CHR ''/''"
  by (auto simp: isspace_def)


















end
